theory Spec2Isabelle
  imports Complex_Main
begin

section \<open>Numbers, truthiness and messages\<close>

text \<open>
  A JavaScript Number is modelled as an exact rational: the arithmetic of the source
  (\<open>+\<close>, \<open>-\<close>, \<open>*\<close>, \<open>/\<close>, \<open>Math.min\<close>, \<open>Math.max\<close>) is taken without
  IEEE-754 rounding error, which is the decimal-safe reading of money the specification
  asks for. \<open>Math.round\<close> rounds to the nearest integer with ties towards
  \<open>+\<infinity>\<close>, that is \<open>\<lfloor>x + 1/2\<rfloor>\<close>.
\<close>

type_synonym number = rat

definition Math_round :: "number \<Rightarrow> number" where
  "Math_round x = of_int \<lfloor>x + 1 / 2\<rfloor>"

definition Math_floor :: "number \<Rightarrow> number" where
  "Math_floor x = of_int \<lfloor>x\<rfloor>"

text \<open>
  An optional string of the source (\<open>null\<close>/\<open>undefined\<close> is \<open>None\<close>) is truthy
  when it is present and not empty; \<open>or_null s\<close> is the source's \<open>s || null\<close>.
\<close>

definition truthy :: "string option \<Rightarrow> bool" where
  "truthy s = (case s of None \<Rightarrow> False | Some t \<Rightarrow> t \<noteq> [])"

definition or_null :: "string option \<Rightarrow> string option" where
  "or_null s = (if truthy s then s else None)"

text \<open>
  A template literal is kept as the list of its pieces: literal text, an interpolated
  number, a number printed by \<open>toFixed(2)\<close>, and an interpolated number that is
  not finite; an interpolated string is \<open>Lit\<close>.
\<close>

datatype piece = Lit string | Num number | Fixed2 number | NotFinite

type_synonym message = "piece list"

section \<open>Coupon (models/Coupon.js)\<close>

datatype discount_type = Percentage | Fixed

record coupon =
  c_code :: string
  c_discountType :: discount_type
  c_discountValue :: number
  c_minPurchase :: number
  c_maxDiscount :: "number option"
  c_expiresAt :: "int option"
  c_usageLimit :: "number option"
  c_usedCount :: number
  c_usedBy :: "string list"
  c_onePerUser :: bool
  c_isActive :: bool
  c_source :: string
  c_stripeCouponId :: "string option"
  c_stripePromotionCodeId :: "string option"

datatype verdict = Valid | Invalid message

definition reason_inactive :: message where
  "reason_inactive = [Lit ''Coupon is inactive'']"

definition reason_expired :: message where
  "reason_expired = [Lit ''Coupon has expired'']"

definition reason_limit :: message where
  "reason_limit = [Lit ''Coupon usage limit reached'']"

definition reason_already_used :: message where
  "reason_already_used = [Lit ''You have already used this coupon'']"

definition reason_min_purchase :: "number \<Rightarrow> message" where
  "reason_min_purchase m = [Lit ''Minimum purchase of $'', Fixed2 m, Lit '' required'']"

text \<open>
  \<open>couponSchema.methods.isValid\<close>; \<open>now\<close> is the value of \<open>new Date()\<close> in
  milliseconds. \<open>expiresAt\<close> is a Date or null, and a Date object is always truthy.
  A usage record keeps the user id; its \<open>usedAt\<close> stamp is read by no function here.
\<close>

definition isValid :: "int \<Rightarrow> coupon \<Rightarrow> number \<Rightarrow> string option \<Rightarrow> verdict" where
  "isValid now c cartSubtotal userId =
    (if \<not> c_isActive c then Invalid reason_inactive
     else if (case c_expiresAt c of None \<Rightarrow> False | Some e \<Rightarrow> now > e)
       then Invalid reason_expired
     else if (case c_usageLimit c of None \<Rightarrow> False | Some l \<Rightarrow> c_usedCount c \<ge> l)
       then Invalid reason_limit
     else if c_onePerUser c \<and> truthy userId \<and> list_ex (\<lambda>u. Some u = userId) (c_usedBy c)
       then Invalid reason_already_used
     else if cartSubtotal < c_minPurchase c
       then Invalid (reason_min_purchase (c_minPurchase c))
     else Valid)"


text \<open>\<open>couponSchema.methods.recordUsage\<close>: the document after the two updates.\<close>

definition recordUsage :: "coupon \<Rightarrow> string option \<Rightarrow> coupon" where
  "recordUsage c userId =
    (let c1 = c\<lparr>c_usedCount := c_usedCount c + 1\<rparr>
     in if truthy userId then c1\<lparr>c_usedBy := c_usedBy c1 @ [the userId]\<rparr> else c1)"

section \<open>Cart (models/Cart.js)\<close>

record cart_item =
  ci_productId :: string
  ci_quantity :: number
  ci_size :: "string option"
  ci_color :: "string option"
  ci_price :: number

record applied_coupon =
  ac_code :: "string option"
  ac_discountType :: "discount_type option"
  ac_discountValue :: number

record cart =
  cart_items :: "cart_item list"
  cart_appliedCoupon :: applied_coupon




section \<open>Product\<close>

text \<open>
  Modelled from the spec: the Product schema (models/Product.js is not among the
  sources). The record holds the fields the controllers and the negotiation service
  read: \<open>isActive\<close>, \<open>price\<close>, \<open>discountedPrice\<close>, \<open>stock\<close>,
  \<open>attributes.sizes\<close>, \<open>attributes.colors\<close>, \<open>negotiationEnabled\<close>,
  \<open>hiddenBottomPrice\<close>, and the display fields copied into a checkout request.
\<close>

record product =
  p_name :: string
  p_description :: "string option"
  p_imageUrl :: "string option"
  p_currency :: "string option"
  p_isActive :: bool
  p_price :: number
  p_discountedPrice :: "number option"
  p_stock :: number
  p_sizes :: "string list"
  p_colors :: "string list"
  p_negotiationEnabled :: bool
  p_hiddenBottomPrice :: "number option"

text \<open>\<open>product.discountedPrice ?? product.price\<close>.\<close>

definition effective_price :: "product \<Rightarrow> number" where
  "effective_price p = (case p_discountedPrice p of None \<Rightarrow> p_price p | Some d \<Rightarrow> d)"

section \<open>Negotiation service (validateDiscount)\<close>

text \<open>
  A JavaScript division by zero gives an infinity or NaN, never an error and never a
  finite number; \<open>NonFinite\<close> stands for those three values.
\<close>

datatype quotient = Finite number | NonFinite

definition js_div :: "number \<Rightarrow> number \<Rightarrow> quotient" where
  "js_div a b = (if b = 0 then NonFinite else Finite (a / b))"

definition num_piece :: "quotient \<Rightarrow> piece" where
  "num_piece q = (case q of Finite x \<Rightarrow> Num x | NonFinite \<Rightarrow> NotFinite)"

text \<open>
  The object \<open>validateDiscount\<close> returns: with \<open>allowed: true\<close> the fields
  \<open>discountAmount\<close>, \<open>effectivePrice\<close>, \<open>maxDiscount\<close>; with \<open>allowed: false\<close>
  the fields \<open>reason\<close>, \<open>maxDiscount\<close> and \<open>maxPercentage\<close> (absent, \<open>None\<close>, in the
  two eligibility rejections).
\<close>

datatype validation =
    Allowed number number number
  | Rejected message number "quotient option"

definition reason_not_eligible :: message where
  "reason_not_eligible = [Lit ''This product is not eligible for negotiation.'']"

definition reason_no_floor :: message where
  "reason_no_floor = [Lit ''No negotiation price configured for this product.'']"

definition reason_exceeds :: "number \<Rightarrow> quotient \<Rightarrow> message" where
  "reason_exceeds maxAllowedDiscount maxAllowedPercentage =
    [Lit ''Discount exceeds our minimum price. Maximum discount available is $'',
     Fixed2 maxAllowedDiscount, Lit '' ('', num_piece maxAllowedPercentage, Lit ''%).'']"

definition validateDiscount :: "product \<Rightarrow> string \<Rightarrow> number \<Rightarrow> validation" where
  "validateDiscount product discountType discountValue =
    (let currentPrice = effective_price product;
         bottomPrice = p_hiddenBottomPrice product
     in if \<not> p_negotiationEnabled product then Rejected reason_not_eligible 0 None
        else case bottomPrice of
          None \<Rightarrow> Rejected reason_no_floor 0 None
        | Some bottom \<Rightarrow>
            if bottom \<le> 0 then Rejected reason_no_floor 0 None
            else
              let discountAmount =
                    (if discountType = ''percentage''
                     then currentPrice * (discountValue / 100)
                     else discountValue);
                  effectivePrice = currentPrice - discountAmount;
                  maxAllowedDiscount = currentPrice - bottom;
                  maxAllowedPercentage =
                    (case js_div maxAllowedDiscount currentPrice of
                       NonFinite \<Rightarrow> NonFinite
                     | Finite q \<Rightarrow> Finite (Math_floor (q * 100 * 10) / 10))
              in if effectivePrice < bottom
                 then Rejected (reason_exceeds maxAllowedDiscount maxAllowedPercentage)
                        maxAllowedDiscount (Some maxAllowedPercentage)
                 else Allowed (Math_round (discountAmount * 100) / 100)
                        (Math_round (effectivePrice * 100) / 100)
                        (Math_round (maxAllowedDiscount * 100) / 100))"

section \<open>Clerk controller (generateCoupon)\<close>

record coupon_request =
  gr_productId :: "string option"
  gr_discountType :: "string option"
  gr_discountValue :: "number option"

datatype coupon_response =
    GcFailure nat message
  | GcRejected message number "quotient option"
  | GcCreated string string number number number number int

text \<open>The enum of the coupon schema's \<open>discountType\<close>; any other string fails validation.\<close>

definition parse_discount_type :: "string \<Rightarrow> discount_type option" where
  "parse_discount_type t =
    (if t = ''percentage'' then Some Percentage
     else if t = ''fixed'' then Some Fixed
     else None)"

text \<open>
  \<open>generateCoupon\<close> over the product and coupon collections (coupons keyed by their
  unique code). The coupon code is random in the source (a reason prefix and six
  characters of a UUID), so it is an input here, as are the clock and the outcome of the
  provider call \<open>createStripeCoupon\<close> (\<open>None\<close> when it throws). Saving the new
  coupon throws on a schema violation (type outside the enum, negative value) or on a
  code already in the collection; every throw ends in the 500 response of the handler's
  \<open>catch\<close>, with whatever was saved before it left in place.
\<close>

definition generateCoupon ::
  "string \<Rightarrow> int \<Rightarrow> (coupon \<Rightarrow> (string \<times> string) option) \<Rightarrow>
   (string \<rightharpoonup> product) \<Rightarrow> (string \<rightharpoonup> coupon) \<Rightarrow> coupon_request \<Rightarrow>
   coupon_response \<times> (string \<rightharpoonup> coupon)" where
  "generateCoupon code now createStripeCoupon products coupons req =
    (case (or_null (gr_productId req), or_null (gr_discountType req), gr_discountValue req) of
       (Some productId, Some discountType, Some discountValue) \<Rightarrow>
         (case products productId of
            None \<Rightarrow> (GcFailure 404 [Lit ''Product not found''], coupons)
          | Some product \<Rightarrow>
              (case validateDiscount product discountType discountValue of
                 Rejected reason maxDiscount maxPercentage \<Rightarrow>
                   (GcRejected reason maxDiscount maxPercentage, coupons)
               | Allowed _ _ _ \<Rightarrow>
                   (case parse_discount_type discountType of
                      None \<Rightarrow> (GcFailure 500 [Lit ''Failed to generate coupon''], coupons)
                    | Some dt \<Rightarrow>
                        if discountValue < 0 then
                          (GcFailure 500 [Lit ''Failed to generate coupon''], coupons)
                        else if coupons code \<noteq> None then
                          (GcFailure 500 [Lit ''Failed to generate coupon''], coupons)
                        else
                          let coupon = \<lparr>c_code = code, c_discountType = dt,
                                c_discountValue = discountValue, c_minPurchase = 0,
                                c_maxDiscount = None,
                                c_expiresAt = Some (now + 24 * 60 * 60 * 1000),
                                c_usageLimit = Some 1, c_usedCount = 0, c_usedBy = [],
                                c_onePerUser = True, c_isActive = True,
                                c_source = ''negotiation'', c_stripeCouponId = None,
                                c_stripePromotionCodeId = None\<rparr>;
                              saved = coupons(code \<mapsto> coupon)
                          in (case createStripeCoupon coupon of
                                None \<Rightarrow> (GcFailure 500 [Lit ''Failed to generate coupon''], saved)
                              | Some (stripeCouponId, stripePromotionCodeId) \<Rightarrow>
                                  let synced = coupon\<lparr>c_stripeCouponId := Some stripeCouponId,
                                        c_stripePromotionCodeId := Some stripePromotionCodeId\<rparr>;
                                      currentPrice = effective_price product;
                                      discountAmount =
                                        (if discountType = ''percentage''
                                         then Math_round (currentPrice * (discountValue / 100) * 100) / 100
                                         else min discountValue currentPrice);
                                      effectivePrice =
                                        Math_round ((currentPrice - discountAmount) * 100) / 100
                                  in (GcCreated code discountType discountValue discountAmount
                                        currentPrice effectivePrice (now + 24 * 60 * 60 * 1000),
                                      coupons(code \<mapsto> synced))))))
     | _ \<Rightarrow>
         (GcFailure 400 [Lit ''productId, discountType, and discountValue are required''],
          coupons))"

section \<open>Cart controller (addToCart, syncCart)\<close>


















section \<open>Payment controller (createCheckoutFromCart)\<close>


record meta_item =
  mi_productId :: string
  mi_quantity :: number
  mi_size :: "string option"
  mi_color :: "string option"
  mi_price :: number
  mi_name :: string
  mi_imageUrl :: string









section \<open>Payment controller (handleWebhook)\<close>

record order_item =
  oi_productId :: string
  oi_name :: string
  oi_price :: number
  oi_quantity :: number
  oi_size :: "string option"
  oi_color :: "string option"
  oi_imageUrl :: string

record order =
  o_userId :: "string option"
  o_items :: "order_item list"
  o_subtotal :: number
  o_discount :: number
  o_couponCode :: "string option"
  o_total :: number
  o_currency :: string
  o_stripeSessionId :: string
  o_stripePaymentIntentId :: "string option"
  o_status :: string

text \<open>
  The checkout session object of a \<open>checkout.session.completed\<close> event. The metadata's
  \<open>itemsJson\<close> is held parsed: \<open>None\<close> when the string is absent, empty or does not
  parse (the handler then goes on with no items).
\<close>

record session =
  s_id :: string
  s_amount_total :: "number option"
  s_currency :: "string option"
  s_payment_intent :: "string option"
  s_userId :: "string option"
  s_couponCode :: "string option"
  s_cartId :: "string option"
  s_itemsJson :: "meta_item list option"

record event =
  ev_type :: string
  ev_session :: session

text \<open>The four collections the handler writes.\<close>

record store =
  st_orders :: "order list"
  st_products :: "string \<rightharpoonup> product"
  st_coupons :: "string \<rightharpoonup> coupon"
  st_carts :: "string \<rightharpoonup> cart"

text \<open>
  The database operations of the handler. A set of them may be made to throw for reasons
  outside the data (a lost connection): \<open>fails step\<close> says which; \<open>no_faults\<close> is
  the run in which none does.
\<close>

datatype db_step = SaveOrder | UpdateStock nat | FindCoupon | SaveCoupon | UpdateCart

definition no_faults :: "db_step \<Rightarrow> bool" where
  "no_faults step = False"

definition session_items :: "session \<Rightarrow> meta_item list" where
  "session_items sess = (case s_itemsJson sess of None \<Rightarrow> [] | Some xs \<Rightarrow> xs)"

text \<open>\<open>new Order({...})\<close> as the handler fills it.\<close>

definition build_order :: "session \<Rightarrow> order" where
  "build_order sess =
    (let couponCode = or_null (s_couponCode sess);
         items = session_items sess;
         subtotal = foldl (\<lambda>sum i. sum + mi_price i * mi_quantity i) 0 items;
         totalPaid = (case s_amount_total sess of None \<Rightarrow> 0 | Some a \<Rightarrow> a) / 100;
         discount = Math_round ((subtotal - totalPaid) * 100) / 100
     in \<lparr>o_userId = s_userId sess,
         o_items = map (\<lambda>i. \<lparr>oi_productId = mi_productId i, oi_name = mi_name i,
                              oi_price = mi_price i, oi_quantity = mi_quantity i,
                              oi_size = mi_size i, oi_color = mi_color i,
                              oi_imageUrl = mi_imageUrl i\<rparr>) items,
         o_subtotal = subtotal,
         o_discount = max 0 discount,
         o_couponCode = couponCode,
         o_total = totalPaid,
         o_currency = (case or_null (s_currency sess) of None \<Rightarrow> ''usd'' | Some cur \<Rightarrow> cur),
         o_stripeSessionId = s_id sess,
         o_stripePaymentIntentId = s_payment_intent sess,
         o_status = ''paid''\<rparr>)"

text \<open>
  The order schema's validation on \<open>save\<close>: \<open>userId\<close> and \<open>stripeSessionId\<close> required,
  at least one item (the \<open>validate\<close> of \<open>items\<close>), and for every item a product id, a
  name and a quantity of at least 1.
\<close>

definition order_valid :: "order \<Rightarrow> bool" where
  "order_valid doc =
    (truthy (o_userId doc) \<and> o_stripeSessionId doc \<noteq> [] \<and> o_items doc \<noteq> [] \<and>
     list_all (\<lambda>i. oi_productId i \<noteq> [] \<and> oi_name i \<noteq> [] \<and> 1 \<le> oi_quantity i) (o_items doc))"

text \<open>
  \<open>order.save()\<close>: throws (\<open>None\<close>) on a validation error and on a duplicate key of the
  unique index on \<open>stripeSessionId\<close>; otherwise the order is inserted.
\<close>

definition save_order :: "(db_step \<Rightarrow> bool) \<Rightarrow> order \<Rightarrow> store \<Rightarrow> store option" where
  "save_order fails doc st =
    (if fails SaveOrder then None
     else if \<not> order_valid doc then None
     else if list_ex (\<lambda>o'. o_stripeSessionId o' = o_stripeSessionId doc) (st_orders st) then None
     else Some (st\<lparr>st_orders := st_orders st @ [doc]\<rparr>))"

text \<open>
  \<open>Product.findByIdAndUpdate(id, { $inc: { stock: -quantity } })\<close>: a product that
  does not exist is left absent.
\<close>

definition inc_stock :: "string \<Rightarrow> number \<Rightarrow> (string \<rightharpoonup> product) \<Rightarrow> (string \<rightharpoonup> product)" where
  "inc_stock productId amount products =
    (case products productId of
       None \<Rightarrow> products
     | Some p \<Rightarrow> products(productId \<mapsto> p\<lparr>p_stock := p_stock p + amount\<rparr>))"

text \<open>
  The inventory loop from its \<open>k\<close>-th item on. The boolean of the result is False when
  an update threw, with the store as the updates before it left it.
\<close>

fun update_inventory :: "(db_step \<Rightarrow> bool) \<Rightarrow> nat \<Rightarrow> meta_item list \<Rightarrow> store \<Rightarrow> bool \<times> store" where
  "update_inventory fails k [] st = (True, st)"
| "update_inventory fails k (item # rest) st =
     (if fails (UpdateStock k) then (False, st)
      else update_inventory fails (Suc k) rest
             (st\<lparr>st_products := inc_stock (mi_productId item) (- mi_quantity item) (st_products st)\<rparr>))"

definition record_coupon_usage ::
  "(db_step \<Rightarrow> bool) \<Rightarrow> string option \<Rightarrow> string option \<Rightarrow> store \<Rightarrow> bool \<times> store" where
  "record_coupon_usage fails couponCode userId st =
    (case couponCode of
       None \<Rightarrow> (True, st)
     | Some code \<Rightarrow>
         if fails FindCoupon then (False, st)
         else (case st_coupons st code of
                 None \<Rightarrow> (True, st)
               | Some coupon \<Rightarrow>
                   if fails SaveCoupon then (False, st)
                   else (True, st\<lparr>st_coupons := (st_coupons st)(code \<mapsto> recordUsage coupon userId)\<rparr>)))"

definition clear_cart :: "(db_step \<Rightarrow> bool) \<Rightarrow> string option \<Rightarrow> store \<Rightarrow> bool \<times> store" where
  "clear_cart fails cartId st =
    (case or_null cartId of
       None \<Rightarrow> (True, st)
     | Some cid \<Rightarrow>
         if fails UpdateCart then (False, st)
         else (case st_carts st cid of
                 None \<Rightarrow> (True, st)
               | Some c \<Rightarrow>
                   (True, st\<lparr>st_carts := (st_carts st)(cid \<mapsto> c\<lparr>cart_items := [],
                      cart_appliedCoupon := \<lparr>ac_code = None, ac_discountType = None,
                                              ac_discountValue = 0\<rparr>\<rparr>)\<rparr>)))"

text \<open>
  The inner \<open>try\<close> block of the handler: the first step that throws ends the block, its
  \<open>catch\<close> only logs, and the writes made before the throw stay.
\<close>

definition fulfil :: "(db_step \<Rightarrow> bool) \<Rightarrow> session \<Rightarrow> store \<Rightarrow> store" where
  "fulfil fails sess st =
    (case save_order fails (build_order sess) st of
       None \<Rightarrow> st
     | Some st1 \<Rightarrow>
         (case update_inventory fails 0 (session_items sess) st1 of
            (False, st2) \<Rightarrow> st2
          | (True, st2) \<Rightarrow>
              (case record_coupon_usage fails (or_null (s_couponCode sess)) (s_userId sess) st2 of
                 (False, st3) \<Rightarrow> st3
               | (True, st3) \<Rightarrow> snd (clear_cart fails (s_cartId sess) st3))))"

datatype webhook_response = WebhookError nat string | Received

text \<open>
  \<open>handleWebhook\<close>. The signature check \<open>constructWebhookEvent\<close> belongs to the
  provider service and is a parameter: on the raw body and the signature header it gives
  the event, or the message of the error it throws.
\<close>

definition handleWebhook ::
  "('body \<Rightarrow> string option \<Rightarrow> string + event) \<Rightarrow> (db_step \<Rightarrow> bool) \<Rightarrow>
   'body \<Rightarrow> string option \<Rightarrow> store \<Rightarrow> webhook_response \<times> store" where
  "handleWebhook constructWebhookEvent fails body sig st =
    (case constructWebhookEvent body sig of
       Inl err \<Rightarrow> (WebhookError 400 (''Webhook Error: '' @ err), st)
     | Inr ev \<Rightarrow>
         if ev_type ev = ''checkout.session.completed''
         then (Received, fulfil fails (ev_session ev) st)
         else (Received, st))"

section \<open>Notions of the specification\<close>


text \<open>
  The specification's \<open>evaluate\<close>: five checks in a fixed order, each with its reason,
  and the first check that fails gives the verdict.
\<close>

definition spec_checks ::
  "int \<Rightarrow> coupon \<Rightarrow> number \<Rightarrow> string option \<Rightarrow> (bool \<times> message) list" where
  "spec_checks now c sub uid =
    [(\<not> c_isActive c, reason_inactive),
     ((case c_expiresAt c of None \<Rightarrow> False | Some e \<Rightarrow> now > e), reason_expired),
     ((case c_usageLimit c of None \<Rightarrow> False | Some l \<Rightarrow> c_usedCount c \<ge> l), reason_limit),
     (c_onePerUser c \<and> truthy uid \<and> list_ex (\<lambda>u. Some u = uid) (c_usedBy c),
      reason_already_used),
     (sub < c_minPurchase c, reason_min_purchase (c_minPurchase c))]"

definition evaluate_spec :: "int \<Rightarrow> coupon \<Rightarrow> number \<Rightarrow> string option \<Rightarrow> verdict" where
  "evaluate_spec now c sub uid =
    (case find fst (spec_checks now c sub uid) of
       None \<Rightarrow> Valid
     | Some (_, r) \<Rightarrow> Invalid r)"




text \<open>
  Notions for stating what deliveries do: the store after one delivery in a run without
  faults, the quantity a list of items orders of one product, and the orders a store
  holds for one session id.
\<close>

definition after_delivery ::
  "('body \<Rightarrow> string option \<Rightarrow> string + event) \<Rightarrow> 'body \<Rightarrow> string option \<Rightarrow> store \<Rightarrow> store" where
  "after_delivery constructWebhookEvent body sig st =
    snd (handleWebhook constructWebhookEvent no_faults body sig st)"

definition ordered_quantity :: "string \<Rightarrow> meta_item list \<Rightarrow> number" where
  "ordered_quantity productId items =
    sum_list (map mi_quantity (filter (\<lambda>i. mi_productId i = productId) items))"

definition orders_of_session :: "string \<Rightarrow> store \<Rightarrow> order list" where
  "orders_of_session sid st = filter (\<lambda>doc. o_stripeSessionId doc = sid) (st_orders st)"








section \<open>Example data\<close>

text \<open>A single-use, one-per-user fixed coupon of 20, never used, with no expiry.\<close>

definition ex_single_use :: coupon where
  "ex_single_use = \<lparr>c_code = ''DEAL-1'', c_discountType = Fixed, c_discountValue = 20,
     c_minPurchase = 0, c_maxDiscount = None, c_expiresAt = None, c_usageLimit = Some 1,
     c_usedCount = 0, c_usedBy = [], c_onePerUser = True, c_isActive = True,
     c_source = ''negotiation'', c_stripeCouponId = None, c_stripePromotionCodeId = None\<rparr>"

text \<open>An unlimited 10 percent coupon with no expiry, already used three times.\<close>

definition ex_open_coupon :: coupon where
  "ex_open_coupon = \<lparr>c_code = ''TEN'', c_discountType = Percentage, c_discountValue = 10,
     c_minPurchase = 0, c_maxDiscount = None, c_expiresAt = None, c_usageLimit = None,
     c_usedCount = 3, c_usedBy = [''u7'', ''u8'', ''u9''], c_onePerUser = True,
     c_isActive = True, c_source = ''manual'', c_stripeCouponId = None,
     c_stripePromotionCodeId = None\<rparr>"






definition ex_cart_ten :: cart where
  "ex_cart_ten = \<lparr>cart_items = [\<lparr>ci_productId = ''p1'', ci_quantity = 3, ci_size = None,
       ci_color = None, ci_price = 20\<rparr>],
     cart_appliedCoupon = \<lparr>ac_code = Some ''TEN'', ac_discountType = Some Percentage,
       ac_discountValue = 10\<rparr>\<rparr>"

text \<open>
  The specification's negotiation example: price 100, floor price 85, and a request for
  a fixed discount of 20 on it.
\<close>

definition ex_product :: product where
  "ex_product = \<lparr>p_name = ''Shirt'', p_description = None, p_imageUrl = None,
     p_currency = None, p_isActive = True, p_price = 100, p_discountedPrice = None,
     p_stock = 5, p_sizes = [], p_colors = [], p_negotiationEnabled = True,
     p_hiddenBottomPrice = Some 85\<rparr>"


text \<open>
  A signature check that accepts one signature and answers with a fixed event; a
  completed session for two shirts paid with the 10 percent coupon, its event, the same
  event with no item list in its metadata, and a store before either is delivered.
\<close>

definition ex_construct :: "event \<Rightarrow> string \<Rightarrow> string option \<Rightarrow> string + event" where
  "ex_construct ev body sig =
    (if sig = Some ''v1=good'' then Inr ev else Inl ''No signatures found'')"

definition ex_session :: session where
  "ex_session = \<lparr>s_id = ''cs_1'', s_amount_total = Some 18000, s_currency = Some ''usd'',
     s_payment_intent = Some ''pi_1'', s_userId = Some ''u1'', s_couponCode = Some ''TEN'',
     s_cartId = Some ''c1'',
     s_itemsJson = Some [\<lparr>mi_productId = ''p1'', mi_quantity = 2, mi_size = None,
       mi_color = None, mi_price = 100, mi_name = ''Shirt'', mi_imageUrl = []\<rparr>]\<rparr>"

definition ex_event :: event where
  "ex_event = \<lparr>ev_type = ''checkout.session.completed'', ev_session = ex_session\<rparr>"

definition ex_event_no_items :: event where
  "ex_event_no_items = \<lparr>ev_type = ''checkout.session.completed'',
     ev_session = ex_session\<lparr>s_id := ''cs_2'', s_itemsJson := None\<rparr>\<rparr>"

definition ex_store :: store where
  "ex_store = \<lparr>st_orders = [], st_products = Map.empty(''p1'' \<mapsto> ex_product),
     st_coupons = Map.empty(''TEN'' \<mapsto> ex_open_coupon),
     st_carts = Map.empty(''c1'' \<mapsto> ex_cart_ten)\<rparr>"

text \<open>The run in which every database operation throws.\<close>

definition all_faults :: "db_step \<Rightarrow> bool" where
  "all_faults step = True"








section \<open>Rounding lemmas\<close>











section \<open>Coupon engine\<close>

lemma isValid_refines: "isValid now c sub uid = evaluate_spec now c sub uid"
  unfolding isValid_def evaluate_spec_def spec_checks_def by simp

lemma reasons_distinct:
  "distinct [reason_inactive, reason_expired, reason_limit, reason_already_used,
             reason_min_purchase m]"
  unfolding reason_inactive_def reason_expired_def reason_limit_def
    reason_already_used_def reason_min_purchase_def
  by simp

lemma isValid_no_limit:
  assumes "c_usageLimit c = None"
  shows "isValid now c sub uid \<noteq> Invalid reason_limit"
    and "isValid now (c\<lparr>c_usedCount := n\<rparr>) sub uid = isValid now c sub uid"
  using assms reasons_distinct[of "c_minPurchase c"]
  by (auto simp: isValid_def)

lemma isValid_no_expiry:
  assumes "c_expiresAt c = None"
  shows "isValid now c sub uid \<noteq> Invalid reason_expired"
    and "isValid later c sub uid = isValid now c sub uid"
  using assms reasons_distinct[of "c_minPurchase c"]
  by (auto simp: isValid_def)

text \<open>
  C2. \<open>isValid\<close> is the specification's \<open>evaluate\<close>: the checks inactive, expired,
  usage limit reached, one-per-user violation, subtotal below the minimum purchase are
  applied in this order and the first that fails gives the reason; the five reasons are
  pairwise distinct; a null usage limit never gives the usage-limit reason (the verdict
  does not depend on the usage count then), and a null expiry never gives the expired
  reason (the verdict does not depend on the clock then).
\<close>

theorem isValid_ordered_checks:
  "isValid now c sub uid = evaluate_spec now c sub uid
   \<and> distinct [reason_inactive, reason_expired, reason_limit, reason_already_used,
               reason_min_purchase m]
   \<and> (c_usageLimit c = None \<longrightarrow>
        isValid now c sub uid \<noteq> Invalid reason_limit
        \<and> isValid now (c\<lparr>c_usedCount := n\<rparr>) sub uid = isValid now c sub uid)
   \<and> (c_expiresAt c = None \<longrightarrow>
        isValid now c sub uid \<noteq> Invalid reason_expired
        \<and> isValid later c sub uid = isValid now c sub uid)"
  using isValid_refines[of now c sub uid] reasons_distinct[of m]
    isValid_no_limit(1)[of c now sub uid] isValid_no_limit(2)[of c now n sub uid]
    isValid_no_expiry(1)[of c now sub uid] isValid_no_expiry(2)[of c later sub uid now]
  by blast

theorem isValid_ordered_checks_witness:
  "c_usageLimit ex_open_coupon = None \<and> c_expiresAt ex_open_coupon = None
   \<and> isValid 1000 ex_open_coupon 50 (Some ''u1'') = Valid
   \<and> evaluate_spec 1000 ex_open_coupon 50 (Some ''u1'') = Valid
   \<and> isValid 1000 (ex_open_coupon\<lparr>c_usedCount := 99\<rparr>) 50 (Some ''u1'') = Valid
   \<and> isValid 2000 ex_open_coupon 50 (Some ''u1'') = Valid
   \<and> isValid 1000 ex_open_coupon 50 (Some ''u8'') = Invalid reason_already_used"
proof -
  have a: "c_usageLimit ex_open_coupon = None" "c_expiresAt ex_open_coupon = None"
    by (simp_all add: ex_open_coupon_def)
  have v: "isValid 1000 ex_open_coupon 50 (Some ''u1'') = Valid"
    by (simp add: isValid_def ex_open_coupon_def truthy_def)
  have u: "isValid 1000 ex_open_coupon 50 (Some ''u8'') = Invalid reason_already_used"
    by (simp add: isValid_def ex_open_coupon_def truthy_def)
  from isValid_ordered_checks[of 1000 ex_open_coupon 50 "Some ''u1''" 0 99 2000] a v u
  show ?thesis by simp
qed






text \<open>
  C6, amended. Take a coupon with usage limit 1, one use per user and no use so far.
  After \<open>recordUsage\<close> for a user \<open>u\<close> the count is 1 and \<open>u\<close> is in the usage records;
  from then on \<open>isValid\<close> answers every user, \<open>u\<close> and any other alike, with the
  usage-limit reason (with the inactive or the expired reason when the coupon is
  inactive or has expired), and never with the already-used reason.
\<close>

theorem single_use_coupon_after_usage:
  assumes "c_usageLimit c = Some 1" and "c_onePerUser c" and "c_usedCount c = 0"
    and "truthy u"
  shows "c_usedCount (recordUsage c u) = 1
     \<and> list_ex (\<lambda>x. Some x = u) (c_usedBy (recordUsage c u))
     \<and> isValid now (recordUsage c u) sub w =
        (if \<not> c_isActive c then Invalid reason_inactive
         else if (case c_expiresAt c of None \<Rightarrow> False | Some e \<Rightarrow> now > e)
           then Invalid reason_expired
         else Invalid reason_limit)
     \<and> isValid now (recordUsage c u) sub w \<noteq> Invalid reason_already_used"
proof -
  have 1: "c_usedCount (recordUsage c u) = 1"
    using assms by (simp add: recordUsage_def Let_def)
  have 2: "list_ex (\<lambda>x. Some x = u) (c_usedBy (recordUsage c u))"
    using assms(4) by (cases u) (simp_all add: recordUsage_def Let_def truthy_def)
  have 3: "isValid now (recordUsage c u) sub w =
        (if \<not> c_isActive c then Invalid reason_inactive
         else if (case c_expiresAt c of None \<Rightarrow> False | Some e \<Rightarrow> now > e)
           then Invalid reason_expired
         else Invalid reason_limit)"
    using assms by (simp add: isValid_def recordUsage_def Let_def)
  have 4: "isValid now (recordUsage c u) sub w \<noteq> Invalid reason_already_used"
    unfolding 3 using reasons_distinct[of 0] by auto
  from 1 2 3 4 show ?thesis by blast
qed

theorem single_use_coupon_after_usage_witness:
  "c_usageLimit ex_single_use = Some 1 \<and> c_onePerUser ex_single_use
   \<and> c_usedCount ex_single_use = 0 \<and> truthy (Some ''u1'')
   \<and> c_usedCount (recordUsage ex_single_use (Some ''u1'')) = 1
   \<and> isValid 1000 (recordUsage ex_single_use (Some ''u1'')) 100 (Some ''u2'')
       = Invalid reason_limit
   \<and> isValid 1000 (recordUsage ex_single_use (Some ''u1'')) 100 (Some ''u2'')
       \<noteq> Invalid reason_already_used"
proof -
  have h: "c_usageLimit ex_single_use = Some 1" "c_onePerUser ex_single_use"
    "c_usedCount ex_single_use = 0" "truthy (Some ''u1'')"
    by (simp_all add: ex_single_use_def truthy_def)
  have a: "c_isActive ex_single_use" "c_expiresAt ex_single_use = None"
    by (simp_all add: ex_single_use_def)
  from single_use_coupon_after_usage[OF h, of 1000 100 "Some ''u2''"] h a
  show ?thesis by (simp add: reason_limit_def reason_already_used_def)
qed

text \<open>
  The claim C6 as stated fails: after the one use by \<open>u1\<close>, the same user is told that
  the usage limit is reached, not that the coupon was already used.
\<close>

theorem same_user_gets_limit_reason:
  "isValid 1000 (recordUsage ex_single_use (Some ''u1'')) 100 (Some ''u1'') = Invalid reason_limit
   \<and> isValid 1000 (recordUsage ex_single_use (Some ''u1'')) 100 (Some ''u1'')
       \<noteq> Invalid reason_already_used"
  by (simp add: isValid_def recordUsage_def ex_single_use_def truthy_def Let_def
      reason_limit_def reason_already_used_def)

section \<open>Cart pricing\<close>

















section \<open>Negotiated discounts\<close>




lemma generateCoupon_rejected:
  assumes "gr_productId req = Some pid" and "pid \<noteq> []"
    and "gr_discountType req = Some t" and "t \<noteq> []" and "gr_discountValue req = Some v"
    and "products pid = Some p"
    and "validateDiscount p t v = Rejected r m q"
  shows "generateCoupon code now stripe products coupons req = (GcRejected r m q, coupons)"
  using assms by (simp add: generateCoupon_def or_null_def truthy_def)






section \<open>Webhook fulfilment\<close>

lemma inc_stock_apply:
  "inc_stock pid' a ps pid =
    (if pid = pid' then map_option (\<lambda>p. p\<lparr>p_stock := p_stock p + a\<rparr>) (ps pid) else ps pid)"
  by (cases "ps pid'") (auto simp: inc_stock_def)

lemma update_inventory_frame:
  "st_orders (snd (update_inventory fails k items st)) = st_orders st"
  "st_coupons (snd (update_inventory fails k items st)) = st_coupons st"
  "st_carts (snd (update_inventory fails k items st)) = st_carts st"
  by (induction items arbitrary: k st) simp_all

lemma update_inventory_completes:
  "fst (update_inventory no_faults k items st) = True"
  by (induction items arbitrary: k st) (simp_all add: no_faults_def)

lemma update_inventory_no_faults_Cons:
  "update_inventory no_faults k (item # rest) st =
     update_inventory no_faults (Suc k) rest
       (st\<lparr>st_products := inc_stock (mi_productId item) (- mi_quantity item) (st_products st)\<rparr>)"
  by (simp add: no_faults_def)

lemma update_inventory_stock:
  "st_products (snd (update_inventory no_faults k items st)) pid =
     map_option (\<lambda>p. p\<lparr>p_stock := p_stock p - ordered_quantity pid items\<rparr>) (st_products st pid)"
proof (induction items arbitrary: k st)
  case Nil
  show ?case by (cases "st_products st pid") (simp_all add: ordered_quantity_def)
next
  case (Cons item rest)
  show ?case
    unfolding update_inventory_no_faults_Cons Cons.IH
    by (cases "st_products st pid")
      (auto simp: inc_stock_apply ordered_quantity_def diff_diff_eq)
qed

lemma record_coupon_usage_frame:
  "st_orders (snd (record_coupon_usage fails cc uid st)) = st_orders st"
  "st_products (snd (record_coupon_usage fails cc uid st)) = st_products st"
  "st_carts (snd (record_coupon_usage fails cc uid st)) = st_carts st"
  by (simp_all add: record_coupon_usage_def split: option.splits)

lemma record_coupon_usage_no_faults:
  "fst (record_coupon_usage no_faults cc uid st) = True"
  "st_coupons (snd (record_coupon_usage no_faults cc uid st)) code =
     (if cc = Some code then map_option (\<lambda>c. recordUsage c uid) (st_coupons st code)
      else st_coupons st code)"
  by (auto simp: record_coupon_usage_def no_faults_def split: option.splits)

lemma clear_cart_frame:
  "st_orders (snd (clear_cart fails cid st)) = st_orders st"
  "st_products (snd (clear_cart fails cid st)) = st_products st"
  "st_coupons (snd (clear_cart fails cid st)) = st_coupons st"
  by (simp_all add: clear_cart_def split: option.splits)

lemma fulfil_orders:
  "st_orders (fulfil fails sess st) =
    (case save_order fails (build_order sess) st of
       None \<Rightarrow> st_orders st
     | Some st1 \<Rightarrow> st_orders st @ [build_order sess])"
proof (cases "save_order fails (build_order sess) st")
  case None
  then show ?thesis by (simp add: fulfil_def)
next
  case (Some st1)
  then have o: "st_orders st1 = st_orders st @ [build_order sess]"
    by (auto simp: save_order_def split: if_splits)
  obtain b2 st2 where u: "update_inventory fails 0 (session_items sess) st1 = (b2, st2)"
    by (cases "update_inventory fails 0 (session_items sess) st1")
  have o2: "st_orders st2 = st_orders st1"
    using update_inventory_frame(1)[of fails 0 "session_items sess" st1] u by simp
  obtain b3 st3 where r: "record_coupon_usage fails (or_null (s_couponCode sess)) (s_userId sess) st2 = (b3, st3)"
    by (cases "record_coupon_usage fails (or_null (s_couponCode sess)) (s_userId sess) st2")
  have o3: "st_orders st3 = st_orders st2"
    using record_coupon_usage_frame(1)[of fails "or_null (s_couponCode sess)" "s_userId sess" st2] r by simp
  have "st_orders (fulfil fails sess st) = st_orders st1"
    using Some u r o2 o3 clear_cart_frame(1)[of fails "s_cartId sess" st3]
    by (cases b2; cases b3) (simp_all add: fulfil_def)
  then show ?thesis using Some o by simp
qed

lemma o_stripeSessionId_build_order: "o_stripeSessionId (build_order sess) = s_id sess"
  by (simp add: build_order_def Let_def)

lemma save_order_duplicate:
  assumes "list_ex (\<lambda>doc. o_stripeSessionId doc = s_id sess) (st_orders st)"
  shows "save_order fails (build_order sess) st = None"
  using assms by (simp add: save_order_def o_stripeSessionId_build_order)

lemma fulfil_twice: "fulfil fails sess (fulfil no_faults sess st) = fulfil no_faults sess st"
proof (cases "save_order no_faults (build_order sess) st")
  case None
  then have same: "fulfil no_faults sess st = st" by (simp add: fulfil_def)
  have "save_order fails (build_order sess) st = None"
    using None by (auto simp: save_order_def no_faults_def split: if_splits)
  then show ?thesis unfolding same by (simp add: fulfil_def)
next
  case (Some st1)
  then have "st_orders (fulfil no_faults sess st) = st_orders st @ [build_order sess]"
    by (simp add: fulfil_orders)
  then have "list_ex (\<lambda>doc. o_stripeSessionId doc = s_id sess) (st_orders (fulfil no_faults sess st))"
    by (simp add: o_stripeSessionId_build_order)
  then have "save_order fails (build_order sess) (fulfil no_faults sess st) = None"
    by (rule save_order_duplicate)
  then show ?thesis by (simp add: fulfil_def)
qed

lemma after_delivery_twice:
  "after_delivery cwe body sig (after_delivery cwe body sig st) = after_delivery cwe body sig st"
  by (cases "cwe body sig") (simp_all add: after_delivery_def handleWebhook_def fulfil_twice)

lemma fulfil_fresh_valid:
  assumes "order_valid (build_order sess)"
    and "\<not> list_ex (\<lambda>doc. o_stripeSessionId doc = s_id sess) (st_orders st)"
  shows "st_orders (fulfil no_faults sess st) = st_orders st @ [build_order sess]"
    and "st_products (fulfil no_faults sess st) pid =
      map_option (\<lambda>p. p\<lparr>p_stock := p_stock p - ordered_quantity pid (session_items sess)\<rparr>)
        (st_products st pid)"
    and "st_coupons (fulfil no_faults sess st) code =
      (if or_null (s_couponCode sess) = Some code
       then map_option (\<lambda>c. recordUsage c (s_userId sess)) (st_coupons st code)
       else st_coupons st code)"
proof -
  let ?st1 = "st\<lparr>st_orders := st_orders st @ [build_order sess]\<rparr>"
  have s: "save_order no_faults (build_order sess) st = Some ?st1"
    using assms by (simp add: save_order_def no_faults_def o_stripeSessionId_build_order)
  obtain st2 where u: "update_inventory no_faults 0 (session_items sess) ?st1 = (True, st2)"
    using update_inventory_completes[of 0 "session_items sess" ?st1]
    by (cases "update_inventory no_faults 0 (session_items sess) ?st1") simp
  obtain st3 where r: "record_coupon_usage no_faults (or_null (s_couponCode sess)) (s_userId sess) st2 = (True, st3)"
    using record_coupon_usage_no_faults(1)[of "or_null (s_couponCode sess)" "s_userId sess" st2]
    by (cases "record_coupon_usage no_faults (or_null (s_couponCode sess)) (s_userId sess) st2") simp
  have f: "fulfil no_faults sess st = snd (clear_cart no_faults (s_cartId sess) st3)"
    using s u r by (simp add: fulfil_def)
  have st2: "st2 = snd (update_inventory no_faults 0 (session_items sess) ?st1)" using u by simp
  have st3: "st3 = snd (record_coupon_usage no_faults (or_null (s_couponCode sess)) (s_userId sess) st2)"
    using r by simp
  show "st_orders (fulfil no_faults sess st) = st_orders st @ [build_order sess]"
    using s by (simp add: fulfil_orders)
  show "st_products (fulfil no_faults sess st) pid =
      map_option (\<lambda>p. p\<lparr>p_stock := p_stock p - ordered_quantity pid (session_items sess)\<rparr>)
        (st_products st pid)"
    unfolding f clear_cart_frame st3 record_coupon_usage_frame st2 update_inventory_stock
    by simp
  show "st_coupons (fulfil no_faults sess st) code =
      (if or_null (s_couponCode sess) = Some code
       then map_option (\<lambda>c. recordUsage c (s_userId sess)) (st_coupons st code)
       else st_coupons st code)"
    unfolding f clear_cart_frame st3 record_coupon_usage_no_faults st2 update_inventory_frame
    by simp
qed


lemma recordUsage_counts:
  "c_usedCount (recordUsage c u) = c_usedCount c + 1"
  "length (c_usedBy (recordUsage c u)) = length (c_usedBy c) + (if truthy u then 1 else 0)"
  by (simp_all add: recordUsage_def Let_def)

lemma orders_of_session_none:
  "orders_of_session sid st = [] \<Longrightarrow> \<not> list_ex (\<lambda>doc. o_stripeSessionId doc = sid) (st_orders st)"
  by (simp add: orders_of_session_def filter_empty_conv list_ex_iff)

lemma after_delivery_completed:
  assumes "cwe body sig = Inr ev" and "ev_type ev = ''checkout.session.completed''"
  shows "after_delivery cwe body sig st = fulfil no_faults (ev_session ev) st"
  using assms by (simp add: after_delivery_def handleWebhook_def)

text \<open>
  C1, amended. In a run without database faults a second delivery of any event leaves
  the store as the first delivery left it. When the event is a
  \<open>checkout.session.completed\<close> for a session \<open>S\<close> whose order passes the order
  schema's validation (a user id, at least one item, every item with a product id, a name
  and a quantity of at least 1) and the store holds no order for \<open>S\<close> yet, then after
  the two deliveries the store holds exactly one order for \<open>S\<close>, every product's stock
  is lower by the quantity ordered of it, once, and the coupon named in the metadata has
  had \<open>recordUsage\<close> applied once (one more use, at most one more usage record), all
  other coupons being as before.
\<close>

theorem webhook_delivered_twice:
  "after_delivery cwe body sig (after_delivery cwe body sig st) = after_delivery cwe body sig st
   \<and> (cwe body sig = Inr ev \<and> ev_type ev = ''checkout.session.completed''
        \<and> order_valid (build_order (ev_session ev))
        \<and> orders_of_session (s_id (ev_session ev)) st = []
      \<longrightarrow>
        orders_of_session (s_id (ev_session ev))
            (after_delivery cwe body sig (after_delivery cwe body sig st))
          = [build_order (ev_session ev)]
        \<and> st_products (after_delivery cwe body sig (after_delivery cwe body sig st)) pid
          = map_option
              (\<lambda>p. p\<lparr>p_stock := p_stock p - ordered_quantity pid (session_items (ev_session ev))\<rparr>)
              (st_products st pid)
        \<and> st_coupons (after_delivery cwe body sig (after_delivery cwe body sig st)) code
          = (if or_null (s_couponCode (ev_session ev)) = Some code
             then map_option (\<lambda>c. recordUsage c (s_userId (ev_session ev))) (st_coupons st code)
             else st_coupons st code))
   \<and> c_usedCount (recordUsage c u) = c_usedCount c + 1
   \<and> length (c_usedBy (recordUsage c u)) = length (c_usedBy c) + (if truthy u then 1 else 0)"
proof -
  let ?twice = "after_delivery cwe body sig (after_delivery cwe body sig st)"
  have twice: "?twice = after_delivery cwe body sig st"
    by (rule after_delivery_twice)
  have main: "orders_of_session (s_id (ev_session ev)) ?twice = [build_order (ev_session ev)]
        \<and> st_products ?twice pid
          = map_option
              (\<lambda>p. p\<lparr>p_stock := p_stock p - ordered_quantity pid (session_items (ev_session ev))\<rparr>)
              (st_products st pid)
        \<and> st_coupons ?twice code
          = (if or_null (s_couponCode (ev_session ev)) = Some code
             then map_option (\<lambda>c. recordUsage c (s_userId (ev_session ev))) (st_coupons st code)
             else st_coupons st code)"
    if h: "cwe body sig = Inr ev" "ev_type ev = ''checkout.session.completed''"
      "order_valid (build_order (ev_session ev))"
      "orders_of_session (s_id (ev_session ev)) st = []"
  proof -
    have once: "after_delivery cwe body sig st = fulfil no_faults (ev_session ev) st"
      using after_delivery_completed[of cwe body sig ev st] h(1,2) by simp
    note fresh = orders_of_session_none[OF h(4)]
    have "orders_of_session (s_id (ev_session ev)) (fulfil no_faults (ev_session ev) st)
          = [build_order (ev_session ev)]"
      using fulfil_fresh_valid(1)[OF h(3) fresh] h(4)
      by (simp add: orders_of_session_def o_stripeSessionId_build_order)
    moreover have "?twice = fulfil no_faults (ev_session ev) st"
      using twice once by simp
    ultimately show ?thesis
      using fulfil_fresh_valid(2)[OF h(3) fresh, of pid] fulfil_fresh_valid(3)[OF h(3) fresh, of code]
      by simp
  qed
  show ?thesis
    using twice main recordUsage_counts[of c u] by blast
qed

theorem webhook_delivered_twice_witness:
  "ex_construct ex_event ''body'' (Some ''v1=good'') = Inr ex_event
   \<and> ev_type ex_event = ''checkout.session.completed''
   \<and> order_valid (build_order (ev_session ex_event))
   \<and> orders_of_session ''cs_1'' ex_store = []
   \<and> orders_of_session ''cs_1''
        (after_delivery (ex_construct ex_event) ''body'' (Some ''v1=good'')
          (after_delivery (ex_construct ex_event) ''body'' (Some ''v1=good'') ex_store))
      = [build_order ex_session]
   \<and> st_products
        (after_delivery (ex_construct ex_event) ''body'' (Some ''v1=good'')
          (after_delivery (ex_construct ex_event) ''body'' (Some ''v1=good'') ex_store)) ''p1''
      = Some (ex_product\<lparr>p_stock := 3\<rparr>)
   \<and> st_coupons
        (after_delivery (ex_construct ex_event) ''body'' (Some ''v1=good'')
          (after_delivery (ex_construct ex_event) ''body'' (Some ''v1=good'') ex_store)) ''TEN''
      = Some (ex_open_coupon\<lparr>c_usedCount := 4, c_usedBy := [''u7'', ''u8'', ''u9'', ''u1'']\<rparr>)"
proof -
  have h: "ex_construct ex_event ''body'' (Some ''v1=good'') = Inr ex_event"
    "ev_type ex_event = ''checkout.session.completed''"
    "ev_session ex_event = ex_session" "s_id ex_session = ''cs_1''"
    by (simp_all add: ex_construct_def ex_event_def ex_session_def)
  have v: "order_valid (build_order ex_session)"
    by (simp add: order_valid_def build_order_def session_items_def ex_session_def truthy_def
        Let_def)
  have f: "orders_of_session ''cs_1'' ex_store = []"
    by (simp add: orders_of_session_def ex_store_def)
  have q: "ordered_quantity ''p1'' (session_items ex_session) = 2"
    by (simp add: ordered_quantity_def session_items_def ex_session_def)
  have p: "st_products ex_store ''p1'' = Some ex_product" "p_stock ex_product = 5"
    "st_coupons ex_store ''TEN'' = Some ex_open_coupon"
    "or_null (s_couponCode ex_session) = Some ''TEN''" "s_userId ex_session = Some ''u1''"
    by (simp_all add: ex_store_def ex_product_def ex_session_def or_null_def truthy_def)
  have r: "recordUsage ex_open_coupon (Some ''u1'')
      = ex_open_coupon\<lparr>c_usedCount := 4, c_usedBy := [''u7'', ''u8'', ''u9'', ''u1'']\<rparr>"
    by (simp add: recordUsage_def ex_open_coupon_def truthy_def Let_def)
  let ?twice = "after_delivery (ex_construct ex_event) ''body'' (Some ''v1=good'')
          (after_delivery (ex_construct ex_event) ''body'' (Some ''v1=good'') ex_store)"
  have "orders_of_session (s_id (ev_session ex_event)) ?twice = [build_order (ev_session ex_event)]
      \<and> st_products ?twice ''p1''
          = map_option
              (\<lambda>p. p\<lparr>p_stock := p_stock p
                  - ordered_quantity ''p1'' (session_items (ev_session ex_event))\<rparr>)
              (st_products ex_store ''p1'')
      \<and> st_coupons ?twice ''TEN''
          = (if or_null (s_couponCode (ev_session ex_event)) = Some ''TEN''
             then map_option (\<lambda>c. recordUsage c (s_userId (ev_session ex_event)))
                    (st_coupons ex_store ''TEN'')
             else st_coupons ex_store ''TEN'')"
    by (rule webhook_delivered_twice[of "ex_construct ex_event" "''body''" "Some ''v1=good''"
          ex_store ex_event "''p1''" "''TEN''" ex_open_coupon "Some ''u1''",
          THEN conjunct2, THEN conjunct1, THEN mp])
      (simp add: h v f)
  then show ?thesis using h v f by (simp add: q p r)
qed

text \<open>
  The claim C1 as stated fails: for an event whose metadata carries no item list the
  order is refused by the schema (an order needs an item), so after two deliveries the
  store holds no order for the session.
\<close>

theorem webhook_without_items_creates_no_order:
  "ex_construct ex_event_no_items ''body'' (Some ''v1=good'') = Inr ex_event_no_items
   \<and> ev_type ex_event_no_items = ''checkout.session.completed''
   \<and> s_id (ev_session ex_event_no_items) = ''cs_2''
   \<and> orders_of_session ''cs_2''
        (after_delivery (ex_construct ex_event_no_items) ''body'' (Some ''v1=good'')
          (after_delivery (ex_construct ex_event_no_items) ''body'' (Some ''v1=good'') ex_store))
      = []"
  by (simp add: after_delivery_def handleWebhook_def fulfil_def save_order_def order_valid_def
      build_order_def session_items_def ex_construct_def ex_event_no_items_def ex_session_def
      ex_store_def orders_of_session_def no_faults_def Let_def)

text \<open>
  C9. When the signature check throws, \<open>handleWebhook\<close> answers with status 400 and the
  error text and leaves the store as it was; when the check passes it answers
  \<open>{received: true}\<close>, whichever database operations of the fulfilment throw.
\<close>

theorem handleWebhook_signature_and_ack:
  "(constructWebhookEvent body sig = Inl err \<longrightarrow>
      handleWebhook constructWebhookEvent fails body sig st
        = (WebhookError 400 (''Webhook Error: '' @ err), st))
   \<and> (constructWebhookEvent body sig = Inr ev \<longrightarrow>
      fst (handleWebhook constructWebhookEvent fails body sig st) = Received)"
proof (cases "constructWebhookEvent body sig")
  case (Inl message)
  then show ?thesis by (simp add: handleWebhook_def)
next
  case (Inr checked)
  then show ?thesis
    by (cases "ev_type checked = ''checkout.session.completed''")
      (simp_all add: handleWebhook_def)
qed

theorem handleWebhook_signature_and_ack_witness:
  "ex_construct ex_event ''body'' (Some ''v1=bad'') = Inl ''No signatures found''
   \<and> handleWebhook (ex_construct ex_event) no_faults ''body'' (Some ''v1=bad'') ex_store
       = (WebhookError 400 ''Webhook Error: No signatures found'', ex_store)
   \<and> ex_construct ex_event ''body'' (Some ''v1=good'') = Inr ex_event
   \<and> fst (handleWebhook (ex_construct ex_event) all_faults ''body'' (Some ''v1=good'') ex_store)
       = Received
   \<and> snd (handleWebhook (ex_construct ex_event) all_faults ''body'' (Some ''v1=good'') ex_store)
       = ex_store"
proof -
  have b: "ex_construct ex_event ''body'' (Some ''v1=bad'') = Inl ''No signatures found''"
    and g: "ex_construct ex_event ''body'' (Some ''v1=good'') = Inr ex_event"
    by (simp_all add: ex_construct_def)
  have s: "snd (handleWebhook (ex_construct ex_event) all_faults ''body'' (Some ''v1=good'') ex_store)
       = ex_store"
    by (simp add: handleWebhook_def g fulfil_def save_order_def all_faults_def)
  from handleWebhook_signature_and_ack[of "ex_construct ex_event" "''body''" "Some ''v1=bad''"
      "''No signatures found''" no_faults ex_store ex_event]
    handleWebhook_signature_and_ack[of "ex_construct ex_event" "''body''" "Some ''v1=good''"
      "''x''" all_faults ex_store ex_event] b g s
  show ?thesis by simp
qed

section \<open>Stock checks\<close>
















section \<open>Cart synchronisation\<close>


















end
